theory Spec2Isabelle
  imports Main "HOL-Library.Word"
begin

section \<open>Zero-copy file I/O over a growable memory mapping (zc_io.c)\<close>

text \<open>
  The development embeds the functions of \<^verbatim>\<open>zc_io.c\<close> that operate on an open
  \<^verbatim>\<open>zc_file\<close>: \<^verbatim>\<open>zc_open\<close>, \<^verbatim>\<open>zc_read_start\<close>, \<^verbatim>\<open>zc_read_end\<close>,
  \<^verbatim>\<open>zc_write_start\<close>, \<^verbatim>\<open>zc_write_end\<close> and \<^verbatim>\<open>zc_lseek\<close>.

  \<^item> \<^verbatim>\<open>off_t\<close>, \<^verbatim>\<open>long\<close> and \<^verbatim>\<open>size_t\<close> are 64-bit words (the code needs Linux for
    \<^verbatim>\<open>mremap\<close>; on LP64 all three are 64 bits wide). A signed comparison reads both
    words with \<open>sint\<close>; additions and subtractions wrap around.
  \<^item> A thread of control is modelled on its own: \<^verbatim>\<open>sem_wait\<close> on a semaphore whose
    value is 0 never returns, which is the result \<open>None\<close> of an operation.
  \<^item> The results of the system calls (\<^verbatim>\<open>open\<close>, \<^verbatim>\<open>fstat\<close>, \<^verbatim>\<open>mmap\<close>, \<^verbatim>\<open>ftruncate\<close>,
    \<^verbatim>\<open>mremap\<close>, \<^verbatim>\<open>msync\<close>) are parameters of the operation that makes the call.
  \<^item> The mapping is shared with the file (\<^verbatim>\<open>MAP_SHARED\<close>): one byte list stands for
    the mapped region, and the file on disk is its prefix of the length that \<^verbatim>\<open>fstat\<close>
    would report. A store or a load through a window that touches a page beyond the end
    of the file does not complete.
  \<^item> Several threads on one handle are a transition system whose steps are the calls:
    a call that would wait for a semaphore is not a step.
\<close>

subsection \<open>Data model\<close>

type_synonym off_t = "64 word"
type_synonym size_t = "64 word"
type_synonym sem_t = nat

text \<open>
  \<^verbatim>\<open>struct zc_file\<close>. The field \<open>base_ptr\<close> holds the bytes of the region mapped at
  \<^verbatim>\<open>base_ptr\<close>; \<open>fd\<close> holds the length on disk of the file behind the descriptor;
  \<open>size_f\<close> is the field \<^verbatim>\<open>size\<close>.
\<close>

record zc_file =
  base_ptr :: "char list"
  fd :: nat
  size_f :: off_t
  offset :: off_t
  mutex :: sem_t
  room_empty :: sem_t
  n_readers :: int

text \<open>
  A pointer returned to the caller: \<open>NULL\<close>, or \<open>Ptr d\<close> for the address
  \<^verbatim>\<open>base_ptr + d\<close> in the current mapping.
\<close>

datatype ptr = NULL | Ptr int

subsection \<open>Semaphores\<close>

definition sem_wait :: "sem_t \<Rightarrow> sem_t option" where
  "sem_wait s = (if s = 0 then None else Some (s - 1))"

definition sem_post :: "sem_t \<Rightarrow> sem_t" where
  "sem_post s = Suc s"

subsection \<open>System calls\<close>

text \<open>
  \<^verbatim>\<open>mmap(NULL, len, ..., MAP_SHARED, fd, 0)\<close>: fails when the system refuses or the
  length is 0 (\<^verbatim>\<open>EINVAL\<close>); otherwise the region holds the bytes of the file, and zero
  bytes from the end of the file up to the requested length. Which of these bytes an
  access can touch is \<open>accessible\<close>, below: for a file of no bytes, none.
\<close>

definition mmap :: "bool \<Rightarrow> char list \<Rightarrow> off_t \<Rightarrow> char list option" where
  "mmap ok contents len =
     (if ok then
        if len = 0 then None
        else Some (take (unat len) (contents @ replicate (unat len - length contents) (CHR 0x00)))
      else None)"

text \<open>
  \<^verbatim>\<open>ftruncate(fd, length)\<close>: fails on a negative length (\<^verbatim>\<open>EINVAL\<close>) or when the
  system refuses; otherwise the file has the new length.
\<close>

definition ftruncate :: "bool \<Rightarrow> nat \<Rightarrow> off_t \<Rightarrow> nat option" where
  "ftruncate ok st_size len =
     (if ok then if sint len < 0 then None else Some (unat len) else None)"

text \<open>
  \<^verbatim>\<open>mremap(old, old_size, new_size, MREMAP_MAYMOVE)\<close>: fails when the system refuses
  or the new size is 0 (\<^verbatim>\<open>EINVAL\<close>); otherwise the old bytes are kept (cut at the new
  size), and the added positions hold whatever the system shows there, given by
  \<open>fresh\<close>. The list \<open>old\<close> has the old size. A pointer to the new mapping is
  again written as a displacement from its start.
\<close>

definition mremap :: "bool \<Rightarrow> (nat \<Rightarrow> char) \<Rightarrow> char list \<Rightarrow> size_t \<Rightarrow> char list option" where
  "mremap ok fresh old new_size =
     (if ok then
        if new_size = 0 then None
        else Some (take (unat new_size) (old @ map fresh [length old..<unat new_size]))
      else None)"

text \<open>
  \<^verbatim>\<open>memset(base + start, c, n)\<close> on the mapped bytes. Positions outside the mapping are
  not part of the model: the write is cut at the end of the list.
\<close>

definition memset :: "char list \<Rightarrow> nat \<Rightarrow> char \<Rightarrow> nat \<Rightarrow> char list" where
  "memset bs start c n =
     take start bs @ replicate (min n (length bs - start)) c @ drop (start + n) bs"

subsection \<open>Operations\<close>

text \<open>
  \<^verbatim>\<open>zc_open\<close>. \<open>opened\<close> is the result of \<^verbatim>\<open>open\<close>: \<open>None\<close> when it fails,
  otherwise the bytes of the file (none for a file just created).
\<close>

definition zc_open :: "char list option \<Rightarrow> bool \<Rightarrow> bool \<Rightarrow> zc_file option" where
  "zc_open opened fstat_ok mmap_ok =
     (case opened of
        None \<Rightarrow> None
      | Some contents \<Rightarrow>
          if \<not> fstat_ok then None
          else
            let st_size = (of_nat (length contents) :: off_t);
                file_size = (if st_size = 0 then 1 else st_size)
            in (case mmap mmap_ok contents file_size of
                  None \<Rightarrow> None
                | Some map_ptr \<Rightarrow>
                    Some \<lparr>base_ptr = map_ptr, fd = length contents, size_f = file_size,
                          offset = 0, mutex = 1, room_empty = 1, n_readers = 0\<rparr>))"

text \<open>
  \<^verbatim>\<open>zc_read_start\<close>. The result is the returned pointer, the value left in \<^verbatim>\<open>*size\<close>
  and the file.
\<close>

definition zc_read_start :: "zc_file \<Rightarrow> size_t \<Rightarrow> (ptr \<times> size_t \<times> zc_file) option" where
  "zc_read_start file sz =
     (case sem_wait (mutex file) of
        None \<Rightarrow> None
      | Some m \<Rightarrow>
          let file = file\<lparr>mutex := m, n_readers := n_readers file + 1\<rparr> in
          (case (if n_readers file = 1 then sem_wait (room_empty file)
                 else Some (room_empty file)) of
             None \<Rightarrow> None
           | Some r \<Rightarrow>
               let file = file\<lparr>room_empty := r, mutex := sem_post (mutex file)\<rparr> in
               if sint (size_f file) \<le> sint (offset file) then Some (NULL, 0, file)
               else
                 let remaining_size = size_f file - offset file;
                     sz = (if sint remaining_size < sint sz then remaining_size else sz);
                     file_ptr = Ptr (sint (offset file))
                 in Some (file_ptr, sz, file\<lparr>offset := offset file + sz\<rparr>)))"

definition zc_read_end :: "zc_file \<Rightarrow> zc_file option" where
  "zc_read_end file =
     (case sem_wait (mutex file) of
        None \<Rightarrow> None
      | Some m \<Rightarrow>
          let file = file\<lparr>mutex := m, n_readers := n_readers file - 1\<rparr>;
              file = (if n_readers file = 0
                      then file\<lparr>room_empty := sem_post (room_empty file)\<rparr> else file)
          in Some (file\<lparr>mutex := sem_post (mutex file)\<rparr>))"

text \<open>
  \<^verbatim>\<open>zc_write_start\<close>. On both error returns the semaphore stays taken and the file
  keeps what the calls before the failure did.
\<close>

definition zc_write_start ::
  "bool \<Rightarrow> bool \<Rightarrow> (nat \<Rightarrow> char) \<Rightarrow> zc_file \<Rightarrow> size_t \<Rightarrow> (ptr \<times> zc_file) option" where
  "zc_write_start ftruncate_ok mremap_ok fresh file sz =
     (case sem_wait (room_empty file) of
        None \<Rightarrow> None
      | Some r \<Rightarrow>
          let file = file\<lparr>room_empty := r\<rparr>;
              remaining_size = size_f file - offset file
          in
            if sint remaining_size < sint sz then
              let new_size = offset file + sz in
              (case ftruncate ftruncate_ok (fd file) new_size of
                 None \<Rightarrow> Some (NULL, file)
               | Some st_size \<Rightarrow>
                   let file = file\<lparr>fd := st_size\<rparr> in
                   (case mremap mremap_ok fresh (base_ptr file) new_size of
                      None \<Rightarrow> Some (NULL, file)
                    | Some new_base_ptr \<Rightarrow>
                        let new_base_ptr =
                              memset new_base_ptr (unat (size_f file)) (CHR 0x00)
                                (unat (new_size - size_f file));
                            file = file\<lparr>base_ptr := new_base_ptr, size_f := new_size\<rparr>
                        in Some (Ptr (sint (offset file)),
                                 file\<lparr>offset := offset file + sz\<rparr>)))
            else Some (Ptr (sint (offset file)), file\<lparr>offset := offset file + sz\<rparr>))"

text \<open>
  \<^verbatim>\<open>zc_write_end\<close>. The first component says whether \<^verbatim>\<open>perror\<close> reported a failed
  \<^verbatim>\<open>msync\<close>.
\<close>

definition zc_write_end :: "bool \<Rightarrow> zc_file \<Rightarrow> bool \<times> zc_file" where
  "zc_write_end msync_ok file =
     (\<not> msync_ok, file\<lparr>room_empty := sem_post (room_empty file)\<rparr>)"

definition SEEK_SET :: int where "SEEK_SET = 0"
definition SEEK_CUR :: int where "SEEK_CUR = 1"
definition SEEK_END :: int where "SEEK_END = 2"

definition zc_lseek :: "zc_file \<Rightarrow> 64 word \<Rightarrow> int \<Rightarrow> (off_t \<times> zc_file) option" where
  "zc_lseek file off whence =
     (case sem_wait (room_empty file) of
        None \<Rightarrow> None
      | Some r \<Rightarrow>
          let file = file\<lparr>room_empty := r\<rparr>;
              new_offset =
                (if whence = SEEK_SET then off
                 else if whence = SEEK_CUR then offset file + off
                 else if whence = SEEK_END then size_f file + off
                 else - 1)
          in if sint new_offset < 0 then Some (- 1, file)
             else Some (new_offset,
                        file\<lparr>offset := new_offset,
                             room_empty := sem_post (room_empty file)\<rparr>))"

subsection \<open>What the caller does with a window\<close>

text \<open>
  A shared file mapping can be longer than the file. An access to a page of the mapping
  that lies wholly beyond the end of the file on disk raises \<^verbatim>\<open>SIGBUS\<close>; the bytes
  between the end of the file and the end of its last page can be accessed. \<open>accessible\<close>
  is the number of bytes of the mapping, counted from its start, that an access can
  touch. The page size is that of Linux on x86-64.
\<close>

definition PAGE_SIZE :: nat where
  "PAGE_SIZE = 4096"

definition accessible :: "zc_file \<Rightarrow> nat" where
  "accessible file =
     min (length (base_ptr file)) (((fd file + PAGE_SIZE - 1) div PAGE_SIZE) * PAGE_SIZE)"

text \<open>
  The caller copies bytes into a write window and reads bytes from a read window. The
  result is \<open>None\<close> where the copy goes through \<open>NULL\<close> or touches a byte that is
  not accessible: the process is killed by a signal, or the behaviour is undefined. A copy
  of no bytes touches nothing.
\<close>

definition store_bytes :: "zc_file \<Rightarrow> ptr \<Rightarrow> char list \<Rightarrow> zc_file option" where
  "store_bytes file p bs =
     (if bs = [] then Some file
      else
        (case p of
           NULL \<Rightarrow> None
         | Ptr d \<Rightarrow>
             if 0 \<le> d \<and> nat d + length bs \<le> accessible file
             then Some (file\<lparr>base_ptr :=
                          take (nat d) (base_ptr file) @ bs
                          @ drop (nat d + length bs) (base_ptr file)\<rparr>)
             else None))"


text \<open>
  The bytes of the file on disk: the mapped bytes up to the length on disk. Where the file
  is longer than the mapping (\<^verbatim>\<open>ftruncate\<close> has succeeded and \<^verbatim>\<open>mremap\<close> has failed), the
  bytes that \<^verbatim>\<open>ftruncate\<close> added are zero.
\<close>

definition file_bytes :: "zc_file \<Rightarrow> char list" where
  "file_bytes file =
     take (fd file) (base_ptr file) @ replicate (fd file - length (base_ptr file)) (CHR 0x00)"

subsection \<open>Well-formed files and concrete files\<close>

text \<open>
  A file as \<^verbatim>\<open>zc_open\<close> and the defined part of the operations leave it: the cursor
  is not negative, the size is positive, and the mapping has \<^verbatim>\<open>size\<close> bytes.
\<close>

definition wf_file :: "zc_file \<Rightarrow> bool" where
  "wf_file f \<longleftrightarrow>
     0 < sint (size_f f) \<and> 0 \<le> sint (offset f) \<and> length (base_ptr f) = unat (size_f f)"

text \<open>\<^verbatim>\<open>zc_read_start\<close> finds both semaphores available where it waits for them.\<close>

definition read_ready :: "zc_file \<Rightarrow> bool" where
  "read_ready f \<longleftrightarrow> mutex f \<noteq> 0 \<and> (n_readers f = 0 \<longrightarrow> room_empty f \<noteq> 0)"

text \<open>
  The position a seek asks for, as a mathematical integer: from the start, from the
  cursor or from the size; \<open>None\<close> for a mode that is none of the three.
\<close>

definition seek_position :: "zc_file \<Rightarrow> 64 word \<Rightarrow> int \<Rightarrow> int option" where
  "seek_position f off whence =
     (if whence = SEEK_SET then Some (sint off)
      else if whence = SEEK_CUR then Some (sint (offset f) + sint off)
      else if whence = SEEK_END then Some (sint (size_f f) + sint off)
      else None)"

text \<open>A file of no bytes and a file of five bytes, as \<^verbatim>\<open>zc_open\<close> returns them.\<close>

definition empty_file :: zc_file where
  "empty_file = \<lparr>base_ptr = [CHR 0x00], fd = 0, size_f = 1, offset = 0,
                  mutex = 1, room_empty = 1, n_readers = 0\<rparr>"

definition hello_file :: zc_file where
  "hello_file = \<lparr>base_ptr = ''hello'', fd = 5, size_f = 5, offset = 0,
                  mutex = 1, room_empty = 1, n_readers = 0\<rparr>"

text \<open>
  The scenario of two writes: on the empty file, write \<^verbatim>\<open>abc\<close> at the start, seek to
  position 10, write \<^verbatim>\<open>xyz\<close>; the result is the bytes of the file on disk.
\<close>

definition abc_xyz :: "(nat \<Rightarrow> char) \<Rightarrow> char list option" where
  "abc_xyz fresh =
     (case zc_write_start True True fresh empty_file 3 of
        None \<Rightarrow> None
      | Some (p1, f1) \<Rightarrow>
          (case store_bytes f1 p1 ''abc'' of
             None \<Rightarrow> None
           | Some f1' \<Rightarrow>
               (case zc_lseek (snd (zc_write_end True f1')) 10 SEEK_SET of
                  None \<Rightarrow> None
                | Some (r, f3) \<Rightarrow>
                    (case zc_write_start True True fresh f3 3 of
                       None \<Rightarrow> None
                     | Some (p2, f4) \<Rightarrow>
                         (case store_bytes f4 p2 ''xyz'' of
                            None \<Rightarrow> None
                          | Some f4' \<Rightarrow>
                              Some (file_bytes (snd (zc_write_end True f4'))))))))"


section \<open>Properties\<close>

subsection \<open>Signed and unsigned readings of 64-bit words\<close>

lemma sint_add64:
  fixes a b :: "64 word"
  assumes "- (2 ^ 63) \<le> sint a + sint b" "sint a + sint b < 2 ^ 63"
  shows "sint (a + b) = sint a + sint b"
  using assms by (simp add: sint_word_ariths signed_take_bit_int_eq_self)

lemma sint_sub64:
  fixes a b :: "64 word"
  assumes "- (2 ^ 63) \<le> sint a - sint b" "sint a - sint b < 2 ^ 63"
  shows "sint (a - b) = sint a - sint b"
  using assms by (simp add: sint_word_ariths signed_take_bit_int_eq_self)

lemma sint_bounds64:
  fixes a :: "64 word"
  shows "- (2 ^ 63) \<le> sint a" "sint a < 2 ^ 63"
  using sint_ge [of a] sint_lt [of a] by simp_all

lemma unat_small_sint:
  fixes w :: "64 word"
  assumes "unat w < 2 ^ 63"
  shows "sint w = int (unat w)"
proof -
  have "int (unat w) < int (2 ^ 63)" using assms by (simp only: of_nat_less_iff)
  then have "uint w < 2 ^ 63" by simp
  moreover have "- (2 ^ 63) \<le> uint w"
    by (rule order_trans [of _ 0]) simp_all
  ultimately have "signed_take_bit 63 (uint w) = uint w"
    by (intro signed_take_bit_int_eq_self)
  then show ?thesis
    by (simp add: sint_uint)
qed

lemma sint_nonneg_unat:
  fixes w :: "64 word"
  assumes "0 \<le> sint w"
  shows "int (unat w) = sint w"
proof -
  have "sint w < 2 ^ 64" using sint_lt [of w] by simp
  then have "take_bit 64 (sint w) = sint w"
    using assms by (intro take_bit_int_eq_self) simp_all
  then show ?thesis
    using uint_sint [of w] by simp
qed

lemma zc_open_empty: "zc_open (Some []) True True = Some empty_file"
  by (simp add: zc_open_def mmap_def empty_file_def)


text \<open>
  Every file that \<^verbatim>\<open>zc_open\<close> returns is well formed and has both semaphores
  available, provided the length of the file on disk is a value of \<^verbatim>\<open>off_t\<close>.
\<close>

lemma zc_open_wf:
  assumes opened: "zc_open (Some contents) True True = Some f"
    and small: "length contents < 2 ^ 63"
  shows "wf_file f" and "read_ready f" and "room_empty f \<noteq> 0" and "mutex f \<noteq> 0"
    and "sint (offset f) = 0"
    and "sint (size_f f) = (if contents = [] then 1 else int (length contents))"
proof -
  define k :: off_t where "k = of_nat (length contents)"
  have "length contents < 2 ^ LENGTH(64)"
    using small by (rule less_trans) simp
  with k_def have u: "unat k = length contents"
    by (intro of_nat_inverse) (rule sym)
  have "unat k < 2 ^ 63" using small by (simp only: u)
  then have "sint k = int (unat k)" by (rule unat_small_sint)
  then have s: "sint k = int (length contents)" by (simp only: u)
  have all: "wf_file f \<and> read_ready f \<and> room_empty f \<noteq> 0 \<and> mutex f \<noteq> 0 \<and>
    sint (offset f) = 0 \<and> sint (size_f f) = (if contents = [] then 1 else int (length contents))"
  proof (cases "contents = []")
    case True
    with opened have "f = empty_file" by (simp add: zc_open_empty)
    with True show ?thesis
      by (simp add: wf_file_def read_ready_def empty_file_def)
  next
    case False
    then have "unat k \<noteq> 0" by (simp only: u) simp
    then have nz: "k \<noteq> 0" by auto
    from opened nz have f: "f = \<lparr>base_ptr = take (unat k) (contents @ replicate (unat k - length contents) (CHR 0x00)),
        fd = length contents, size_f = k, offset = 0, mutex = 1, room_empty = 1, n_readers = 0\<rparr>"
      by (simp add: zc_open_def mmap_def Let_def flip: k_def)
    have pos: "0 < sint k" using s False by simp
    show ?thesis
      using False pos s by (simp add: f wf_file_def read_ready_def u)
  qed
  from all show "wf_file f" by simp
  from all show "read_ready f" by simp
  from all show "room_empty f \<noteq> 0" by simp
  from all show "mutex f \<noteq> 0" by simp
  from all show "sint (offset f) = 0" by simp
  from all show "sint (size_f f) = (if contents = [] then 1 else int (length contents))" by simp
qed

subsection \<open>Semaphores in one thread of control\<close>






subsection \<open>Several threads on one handle\<close>











subsection \<open>Seeking\<close>

text \<open>
  Claim C5. Where the semaphore is available and the position asked for (\<open>seek_position\<close>:
  from the start, from the cursor or from the size) is representable in \<^verbatim>\<open>off_t\<close>,
  \<^verbatim>\<open>zc_lseek\<close> returns. It returns \<open>-1\<close> exactly when the position is negative or the mode
  is none of the three, and then the cursor is unchanged; otherwise it returns the position
  and the cursor is that position, whether or not it lies beyond the size. The mapping,
  the size and the file on disk are unchanged in every case.
\<close>

theorem zc_lseek_fails_iff:
  assumes room: "room_empty f \<noteq> 0"
    and repr: "\<forall>p. seek_position f off whence = Some p \<longrightarrow> - (2 ^ 63) \<le> p \<and> p < 2 ^ 63"
  shows "\<exists>r f'. zc_lseek f off whence = Some (r, f') \<and>
           size_f f' = size_f f \<and> base_ptr f' = base_ptr f \<and> fd f' = fd f \<and>
           (case seek_position f off whence of
              None \<Rightarrow> r = - 1 \<and> offset f' = offset f
            | Some p \<Rightarrow>
                if p < 0 then r = - 1 \<and> offset f' = offset f
                else sint r = p \<and> r \<noteq> - 1 \<and> offset f' = r)"
proof -
  consider (from_start) "whence = SEEK_SET" | (from_cur) "whence = SEEK_CUR" | (from_end) "whence = SEEK_END"
    | (other) "whence \<noteq> SEEK_SET" "whence \<noteq> SEEK_CUR" "whence \<noteq> SEEK_END"
    by blast
  then show ?thesis
  proof cases
    case from_start
    then show ?thesis
      using room by (auto simp: zc_lseek_def sem_wait_def seek_position_def Let_def)
  next
    case from_cur
    have "sint (offset f + off) = sint (offset f) + sint off"
      using repr from_cur by (intro sint_add64) (simp_all add: seek_position_def SEEK_SET_def SEEK_CUR_def)
    then show ?thesis
      using room from_cur
      by (auto simp: zc_lseek_def sem_wait_def seek_position_def Let_def SEEK_SET_def SEEK_CUR_def)
  next
    case from_end
    have "sint (size_f f + off) = sint (size_f f) + sint off"
      using repr from_end by (intro sint_add64)
        (simp_all add: seek_position_def SEEK_SET_def SEEK_CUR_def SEEK_END_def)
    then show ?thesis
      using room from_end
      by (auto simp: zc_lseek_def sem_wait_def seek_position_def Let_def SEEK_SET_def
          SEEK_CUR_def SEEK_END_def)
  next
    case other
    then show ?thesis
      using room by (auto simp: zc_lseek_def sem_wait_def seek_position_def Let_def)
  qed
qed

text \<open>
  Seeking ten bytes past the end of the five-byte file gives 15; seeking six bytes before
  its end is refused and the cursor stays.
\<close>

theorem zc_lseek_fails_iff_witness:
  "room_empty hello_file \<noteq> 0 \<and>
   (\<exists>r f'. zc_lseek hello_file 10 SEEK_END = Some (r, f') \<and> sint r = 15 \<and> offset f' = r) \<and>
   (\<exists>r f'. zc_lseek hello_file (- 6) SEEK_END = Some (r, f') \<and> r = - 1 \<and> offset f' = offset hello_file)"
proof -
  have room: "room_empty hello_file \<noteq> 0" by (simp add: hello_file_def)
  have p1: "seek_position hello_file 10 SEEK_END = Some 15"
    by (simp add: seek_position_def hello_file_def SEEK_SET_def SEEK_CUR_def SEEK_END_def)
  have p2: "seek_position hello_file (- 6) SEEK_END = Some (- 1)"
    by (simp add: seek_position_def hello_file_def SEEK_SET_def SEEK_CUR_def SEEK_END_def)
  have r1: "\<forall>p. seek_position hello_file 10 SEEK_END = Some p \<longrightarrow> - (2 ^ 63) \<le> p \<and> p < 2 ^ 63"
    by (simp add: p1)
  have r2: "\<forall>p. seek_position hello_file (- 6) SEEK_END = Some p \<longrightarrow> - (2 ^ 63) \<le> p \<and> p < 2 ^ 63"
    by (simp add: p2)
  show ?thesis
    using room zc_lseek_fails_iff [OF room r1] zc_lseek_fails_iff [OF room r2]
    by (simp add: p1 p2) blast
qed

subsection \<open>Growing and windows\<close>

lemma wf_file_length:
  assumes "wf_file f"
  shows "int (length (base_ptr f)) = sint (size_f f)"
  using assms sint_nonneg_unat [of "size_f f"] by (simp add: wf_file_def)

lemma grow_bytes:
  assumes "length old \<le> n"
  shows "memset (take n (old @ map fresh [length old..<n])) (length old) c (n - length old)
         = old @ replicate (n - length old) c"
  using assms by (simp add: memset_def)


lemma zc_write_start_grow_eq:
  assumes wf: "wf_file f" and room: "room_empty f \<noteq> 0"
    and fits: "sint (offset f) + int (unat sz) < 2 ^ 63"
    and over: "sint (size_f f) < sint (offset f) + int (unat sz)"
  shows "zc_write_start tr mr fresh f sz =
           (if \<not> tr then Some (NULL, f\<lparr>room_empty := room_empty f - 1\<rparr>)
            else if \<not> mr
            then Some (NULL, f\<lparr>room_empty := room_empty f - 1,
                                fd := nat (sint (offset f)) + unat sz\<rparr>)
            else Some (Ptr (sint (offset f)),
                       f\<lparr>room_empty := room_empty f - 1,
                         fd := nat (sint (offset f)) + unat sz,
                         base_ptr := base_ptr f @
                           replicate (nat (sint (offset f)) + unat sz - length (base_ptr f))
                             (CHR 0x00),
                         size_f := offset f + sz,
                         offset := offset f + sz\<rparr>))"
proof -
  let ?S = "sint (size_f f)" and ?O = "sint (offset f)"
  have O: "0 \<le> ?O" and S0: "0 < ?S" using wf by (simp_all add: wf_file_def)
  have len: "int (length (base_ptr f)) = ?S" using wf by (rule wf_file_length)
  have lenu: "unat (size_f f) = length (base_ptr f)" using wf by (simp add: wf_file_def)
  have S: "?S < 2 ^ 63" by (rule sint_bounds64)
  have "int (unat sz) < int (2 ^ 63)" using fits O by simp
  then have "unat sz < 2 ^ 63" by (simp only: of_nat_less_iff)
  then have N: "sint sz = int (unat sz)" by (rule unat_small_sint)
  have O63: "?O < 2 ^ 63" by (rule sint_bounds64)
  have rem: "sint (size_f f - offset f) = ?S - ?O"
    using O S S0 O63 by (intro sint_sub64) linarith+
  have "sint (offset f + sz) = ?O + sint sz"
    using O fits N by (intro sint_add64) linarith+
  then have new: "sint (offset f + sz) = ?O + int (unat sz)"
    using N by simp
  have newu: "unat (offset f + sz) = nat ?O + unat sz"
    using sint_nonneg_unat [of "offset f + sz"] new O by linarith
  have "sint (offset f + sz - size_f f) = sint (offset f + sz) - ?S"
    using new over fits S0 by (intro sint_sub64) linarith+
  then have "sint (offset f + sz - size_f f) = ?O + int (unat sz) - ?S"
    using new by simp
  then have diffu: "unat (offset f + sz - size_f f) = nat ?O + unat sz - length (base_ptr f)"
    using sint_nonneg_unat [of "offset f + sz - size_f f"] over len O by linarith
  have nz: "offset f + sz \<noteq> 0"
    using new over S0 by auto
  have le: "length (base_ptr f) \<le> nat ?O + unat sz"
    using len over O by linarith
  have "0 \<le> uint sz" by simp
  with O have nn: "\<not> ?O + uint sz < 0" by linarith
  show ?thesis
    using room rem N over new newu diffu nz grow_bytes [OF le, of fresh "CHR 0x00"] lenu nn
    by (simp add: zc_write_start_def sem_wait_def Let_def ftruncate_def mremap_def)
qed



lemma zc_write_end_releases:
  "fst (zc_write_end msync_ok f) = (\<not> msync_ok)"
  "room_empty (snd (zc_write_end msync_ok f)) = Suc (room_empty f)"
  by (simp_all add: zc_write_end_def sem_post_def)

lemma zc_read_end_after_start:
  assumes "zc_read_start f sz = Some (p, n, f')"
  shows "\<exists>f''. zc_read_end f' = Some f'' \<and> room_empty f'' = room_empty f \<and>
           mutex f'' = mutex f \<and> n_readers f'' = n_readers f"
  using assms
  by (auto simp: zc_read_start_def zc_read_end_def sem_wait_def sem_post_def Let_def
      split: if_splits)

subsection \<open>Writing and reading back\<close>









subsection \<open>Growth\<close>

lemma abc_xyz_bytes: "abc_xyz fresh = Some (''abc'' @ replicate 7 (CHR 0x00) @ ''xyz'')"
  by (simp add: abc_xyz_def zc_write_start_def zc_write_end_def zc_lseek_def store_bytes_def
      accessible_def PAGE_SIZE_def
      file_bytes_def ftruncate_def mremap_def memset_def empty_file_def sem_wait_def sem_post_def
      SEEK_SET_def Let_def)

text \<open>
  Where the end of the window is a position that \<^verbatim>\<open>off_t\<close> can represent and lies beyond
  the mapping, and \<^verbatim>\<open>ftruncate\<close> and \<^verbatim>\<open>mremap\<close> succeed: the size, the length of the
  mapping and the length of the file on disk are the cursor plus the size asked for, the
  bytes of the old mapping are unchanged, and every byte from the old length on is zero,
  whatever the system showed there.
\<close>

lemma zc_write_start_grows:
  assumes wf: "wf_file f" and room: "room_empty f \<noteq> 0"
    and fits: "sint (offset f) + int (unat sz) < 2 ^ 63"
    and over: "sint (size_f f) < sint (offset f) + int (unat sz)"
  shows "\<exists>f'. zc_write_start True True fresh f sz = Some (Ptr (sint (offset f)), f') \<and>
           sint (size_f f') = sint (offset f) + int (unat sz) \<and>
           int (length (base_ptr f')) = sint (offset f) + int (unat sz) \<and>
           int (fd f') = sint (offset f) + int (unat sz) \<and>
           take (length (base_ptr f)) (base_ptr f') = base_ptr f \<and>
           (\<forall>i. length (base_ptr f) \<le> i \<and> i < length (base_ptr f') \<longrightarrow>
                base_ptr f' ! i = CHR 0x00) \<and>
           sint (offset f') = sint (offset f) + int (unat sz)"
proof -
  let ?S = "sint (size_f f)" and ?O = "sint (offset f)"
  have O: "0 \<le> ?O" using wf by (simp add: wf_file_def)
  have len: "int (length (base_ptr f)) = ?S" using wf by (rule wf_file_length)
  have "int (unat sz) < int (2 ^ 63)" using fits O by simp
  then have "unat sz < 2 ^ 63" by (simp only: of_nat_less_iff)
  then have N: "sint sz = int (unat sz)" by (rule unat_small_sint)
  have "sint (offset f + sz) = ?O + sint sz"
    using O fits N by (intro sint_add64) linarith+
  then have new: "sint (offset f + sz) = ?O + int (unat sz)"
    using N by simp
  have le: "length (base_ptr f) \<le> nat ?O + unat sz"
    using len over O by linarith
  show ?thesis
    unfolding zc_write_start_grow_eq [OF wf room fits over]
    using new le O by (auto simp: nth_append)
qed

text \<open>
  Claim C2 (a growth that succeeds extends the file and the mapping to exactly the cursor
  plus the size). On the five-byte file, after a seek to position 100, a write of
  \<open>2 ^ 64 - 10\<close> bytes is read as a size of \<open>-10\<close> by the cast to \<^verbatim>\<open>long\<close>, which is
  greater than the \<open>-95\<close> bytes left, so the file grows; the new size \<open>offset + size\<close>
  wraps to 90. \<^verbatim>\<open>ftruncate\<close> and \<^verbatim>\<open>mremap\<close> succeed: the file and the mapping have 90
  bytes, and the window returned is at position 100.
\<close>

theorem zc_write_start_grows_short:
  "zc_lseek hello_file 100 SEEK_SET = Some (100, hello_file\<lparr>offset := 100\<rparr>) \<and>
   wf_file (hello_file\<lparr>offset := 100\<rparr>) \<and>
   unat (0xFFFFFFFFFFFFFFF6 :: size_t) = 18446744073709551606 \<and>
   sint (0xFFFFFFFFFFFFFFF6 :: size_t) = - 10 \<and>
   zc_write_start True True (\<lambda>i. CHR ''?'') (hello_file\<lparr>offset := 100\<rparr>) 0xFFFFFFFFFFFFFFF6 =
     Some (Ptr 100,
           hello_file\<lparr>room_empty := 0, fd := 90,
                       base_ptr := ''hello'' @ replicate 85 (CHR 0x00),
                       size_f := 90, offset := 90\<rparr>)"
proof -
  have seek: "zc_lseek hello_file 100 SEEK_SET = Some (100, hello_file\<lparr>offset := 100\<rparr>)"
    by (simp add: zc_lseek_def hello_file_def sem_wait_def sem_post_def SEEK_SET_def Let_def)
  have wf: "wf_file (hello_file\<lparr>offset := 100\<rparr>)"
    by (simp add: wf_file_def hello_file_def)
  have grow: "zc_write_start True True (\<lambda>i. CHR ''?'') (hello_file\<lparr>offset := 100\<rparr>)
      0xFFFFFFFFFFFFFFF6 =
     Some (Ptr 100,
           hello_file\<lparr>room_empty := 0, fd := 90,
                       base_ptr := ''hello'' @ replicate 85 (CHR 0x00),
                       size_f := 90, offset := 90\<rparr>)"
    by (simp add: zc_write_start_def ftruncate_def mremap_def memset_def hello_file_def
        sem_wait_def Let_def)
  from seek wf grow show ?thesis by simp
qed

subsection \<open>Reading\<close>

text \<open>
  Claim C3 (the size returned is the smaller of the size asked for and the bytes left).
  On the five-byte file with the cursor at 0, a request for the largest \<^verbatim>\<open>size_t\<close>
  value is read as \<open>-1\<close> by the cast to \<^verbatim>\<open>long\<close>, so it is not cut down to the five
  bytes left: the size returned is the request itself and the cursor is moved to \<open>-1\<close>.
\<close>

theorem zc_read_start_size_max:
  "zc_read_start hello_file 0xFFFFFFFFFFFFFFFF =
     Some (Ptr 0, 0xFFFFFFFFFFFFFFFF,
           hello_file\<lparr>offset := 0xFFFFFFFFFFFFFFFF, room_empty := 0, n_readers := 1\<rparr>) \<and>
   sint (0xFFFFFFFFFFFFFFFF :: off_t) = - 1 \<and>
   unat (0xFFFFFFFFFFFFFFFF :: size_t) = 18446744073709551615 \<and>
   min (unat (0xFFFFFFFFFFFFFFFF :: size_t))
       (nat (sint (size_f hello_file) - sint (offset hello_file))) = 5"
  by (simp add: zc_read_start_def hello_file_def sem_wait_def sem_post_def Let_def)

subsection \<open>Release of the semaphore\<close>

text \<open>
  Claim C6 (every seek releases the access it acquired). A seek to position \<open>-1\<close> of the
  five-byte file returns \<open>-1\<close> with \<open>room_empty\<close> left at 0; after it a seek, a
  write and a read on the file never return.
\<close>

theorem zc_lseek_error_keeps_room:
  "zc_lseek hello_file (- 1) SEEK_SET = Some (- 1, hello_file\<lparr>room_empty := 0\<rparr>) \<and>
   zc_lseek (hello_file\<lparr>room_empty := 0\<rparr>) 0 SEEK_SET = None \<and>
   zc_write_start True True (\<lambda>i. CHR 0x00) (hello_file\<lparr>room_empty := 0\<rparr>) 1 = None \<and>
   zc_read_start (hello_file\<lparr>room_empty := 0\<rparr>) 1 = None"
  by (simp add: zc_lseek_def zc_write_start_def zc_read_start_def hello_file_def sem_wait_def
      sem_post_def Let_def SEEK_SET_def)

subsection \<open>The size and the file on disk\<close>

text \<open>
  Claim C7 (the size equals the length of the file on disk after every operation). On the
  empty file, a write of one byte at the start finds room in the one mapped byte and does
  not call \<^verbatim>\<open>ftruncate\<close>: when \<^verbatim>\<open>zc_write_start\<close> returns, and after \<^verbatim>\<open>zc_write_end\<close>,
  the size is 1 and the file on disk has 0 bytes; a store of the byte through the window
  does not complete. On the five-byte file, a write of ten bytes whose \<^verbatim>\<open>ftruncate\<close>
  succeeds and whose \<^verbatim>\<open>mremap\<close> fails returns \<open>NULL\<close> with the size still 5 and the
  file on disk at 10 bytes.
\<close>

theorem size_differs_from_disk:
  "zc_open (Some []) True True = Some empty_file \<and>
   zc_write_start True True (\<lambda>i. CHR 0x00) empty_file 1 =
     Some (Ptr 0, empty_file\<lparr>room_empty := 0, offset := 1\<rparr>) \<and>
   size_f (empty_file\<lparr>room_empty := 0, offset := 1\<rparr>) = 1 \<and>
   fd (empty_file\<lparr>room_empty := 0, offset := 1\<rparr>) = 0 \<and>
   store_bytes (empty_file\<lparr>room_empty := 0, offset := 1\<rparr>) (Ptr 0) ''a'' = None \<and>
   size_f (snd (zc_write_end True (empty_file\<lparr>room_empty := 0, offset := 1\<rparr>))) = 1 \<and>
   fd (snd (zc_write_end True (empty_file\<lparr>room_empty := 0, offset := 1\<rparr>))) = 0 \<and>
   zc_write_start True False (\<lambda>i. CHR 0x00) hello_file 10 =
     Some (NULL, hello_file\<lparr>room_empty := 0, fd := 10\<rparr>) \<and>
   size_f (hello_file\<lparr>room_empty := 0, fd := 10\<rparr>) = 5"
  by (simp add: zc_open_empty zc_write_start_def zc_write_end_def store_bytes_def
      accessible_def PAGE_SIZE_def
      ftruncate_def mremap_def hello_file_def empty_file_def sem_wait_def sem_post_def Let_def)

text \<open>
  Claim C8 (a read on a freshly opened empty file returns size 0). On the empty file as
  \<^verbatim>\<open>zc_open\<close> returns it, a request for five bytes returns a window at the mapped byte
  and the size 1.
\<close>

theorem zc_read_start_floor_byte:
  "zc_open (Some []) True True = Some empty_file \<and>
   zc_read_start empty_file 5 =
     Some (Ptr 0, 1, empty_file\<lparr>offset := 1, room_empty := 0, n_readers := 1\<rparr>)"
  by (simp add: zc_open_empty zc_read_start_def empty_file_def sem_wait_def sem_post_def Let_def)

subsection \<open>Windows and the mapping\<close>

text \<open>
  Claim C9 (every window returned lies within the mapping). On the five-byte file with the
  cursor at 0, a read and a write for \<open>2 ^ 63\<close> bytes each return a window at the
  start of the mapping: the cast to \<^verbatim>\<open>long\<close> makes the size negative, so the read is not
  cut down and the write does not grow the file. The size returned by the read is
  \<open>2 ^ 63\<close>, and after the write the mapping still has five bytes.
\<close>

theorem window_beyond_mapping:
  "zc_read_start hello_file (2 ^ 63) =
     Some (Ptr 0, 2 ^ 63, hello_file\<lparr>offset := 2 ^ 63, room_empty := 0, n_readers := 1\<rparr>) \<and>
   zc_write_start True True (\<lambda>i. CHR 0x00) hello_file (2 ^ 63) =
     Some (Ptr 0, hello_file\<lparr>offset := 2 ^ 63, room_empty := 0\<rparr>) \<and>
   length (base_ptr (hello_file\<lparr>offset := 2 ^ 63, room_empty := 0\<rparr>)) = 5 \<and>
   unat (2 ^ 63 :: size_t) = 2 ^ 63"
  by (simp add: zc_read_start_def zc_write_start_def hello_file_def sem_wait_def sem_post_def Let_def)

subsection \<open>The null window\<close>

text \<open>
  Claim C10. On a well-formed file whose semaphores are available, \<^verbatim>\<open>zc_read_start\<close>
  returns, for every size asked for. It returns \<open>NULL\<close> exactly when the cursor is at or
  past the size, and then the cursor is unchanged; when the cursor is before the size it
  returns the pointer at the cursor, which lies inside the mapping.
\<close>

theorem zc_read_start_null_iff:
  assumes ready: "read_ready f" and wf: "wf_file f"
  shows "\<exists>p n f'. zc_read_start f sz = Some (p, n, f') \<and>
           (p = NULL \<longleftrightarrow> sint (size_f f) \<le> sint (offset f)) \<and>
           (p = NULL \<longrightarrow> offset f' = offset f) \<and>
           (sint (offset f) < sint (size_f f) \<longrightarrow>
              (\<exists>d. p = Ptr d \<and> d = sint (offset f) \<and> 0 \<le> d \<and> d < int (length (base_ptr f')))) \<and>
           base_ptr f' = base_ptr f \<and> size_f f' = size_f f"
proof (cases "sint (size_f f) \<le> sint (offset f)")
  case True
  then show ?thesis
    using ready by (auto simp: zc_read_start_def read_ready_def sem_wait_def Let_def)
next
  case False
  have "0 \<le> sint (offset f)" using wf by (simp add: wf_file_def)
  then show ?thesis
    using ready False wf_file_length [OF wf]
    by (auto simp: zc_read_start_def read_ready_def sem_wait_def Let_def)
qed

text \<open>
  On the five-byte file a request for no bytes at the start returns the pointer to the
  start; with the cursor at 5 a request for seven bytes returns \<open>NULL\<close> and the cursor
  stays at 5.
\<close>

theorem zc_read_start_null_iff_witness:
  "read_ready hello_file \<and> wf_file hello_file \<and>
   (\<exists>n f'. zc_read_start hello_file 0 = Some (Ptr 0, n, f')) \<and>
   read_ready (hello_file\<lparr>offset := 5\<rparr>) \<and> wf_file (hello_file\<lparr>offset := 5\<rparr>) \<and>
   (\<exists>n f'. zc_read_start (hello_file\<lparr>offset := 5\<rparr>) 7 = Some (NULL, n, f') \<and>
            sint (offset f') = 5)"
proof -
  have r: "read_ready hello_file" and w: "wf_file hello_file"
    and r': "read_ready (hello_file\<lparr>offset := 5\<rparr>)"
    and w': "wf_file (hello_file\<lparr>offset := 5\<rparr>)"
    by (simp_all add: read_ready_def wf_file_def hello_file_def)
  have v: "sint (offset hello_file) = 0" "sint (size_f hello_file) = 5"
    by (simp_all add: hello_file_def)
  show ?thesis
    using r w r' w' zc_read_start_null_iff [OF r w, of 0]
      zc_read_start_null_iff [OF r' w', of 7]
    by (auto simp: v)
qed

end
